theory Spec2Isabelle
  imports Main "HOL-Library.Char_ord" "HOL-Library.List_Lexorder"
begin

section \<open>Python string operations\<close>

text \<open>
  Strings are lists of characters. The model covers ASCII text: \<open>lower\<close>, \<open>upper\<close> and
  \<open>title\<close> change the letters A-Z and a-z only, as Python's \<^verbatim>\<open>str.lower\<close>,
  \<^verbatim>\<open>str.upper\<close> and \<^verbatim>\<open>str.title\<close> do on ASCII input.
\<close>

definition is_upper :: "char \<Rightarrow> bool" where
  "is_upper c = (65 \<le> (of_char c :: nat) \<and> (of_char c :: nat) \<le> 90)"

definition is_lower :: "char \<Rightarrow> bool" where
  "is_lower c = (97 \<le> (of_char c :: nat) \<and> (of_char c :: nat) \<le> 122)"

definition is_cased :: "char \<Rightarrow> bool" where
  "is_cased c = (is_upper c \<or> is_lower c)"

definition lower_char :: "char \<Rightarrow> char" where
  "lower_char c = (if is_upper c then char_of ((of_char c :: nat) + 32) else c)"

definition upper_char :: "char \<Rightarrow> char" where
  "upper_char c = (if is_lower c then char_of ((of_char c :: nat) - 32) else c)"

text \<open>\<^verbatim>\<open>s.lower()\<close>\<close>

definition lower :: "string \<Rightarrow> string" where
  "lower s = map lower_char s"

text \<open>
  \<^verbatim>\<open>s.title()\<close>: a letter that follows a letter is lower-cased, any other letter is
  upper-cased; characters that are not letters are kept.
\<close>

fun title_from :: "bool \<Rightarrow> string \<Rightarrow> string" where
  "title_from previous_is_cased [] = []"
| "title_from previous_is_cased (c # cs) =
     (if previous_is_cased then lower_char c else upper_char c) # title_from (is_cased c) cs"

definition str_title :: "string \<Rightarrow> string" where
  "str_title s = title_from False s"

text \<open>\<^verbatim>\<open>s.replace(old, new)\<close> for a one-character \<open>old\<close>.\<close>

definition replace :: "char \<Rightarrow> string \<Rightarrow> string \<Rightarrow> string" where
  "replace old new s = concat (map (\<lambda>c. if c = old then new else [c]) s)"

text \<open>\<^verbatim>\<open>s.startswith(p)\<close> and \<^verbatim>\<open>sub in s\<close>.\<close>

fun startswith :: "string \<Rightarrow> string \<Rightarrow> bool" where
  "startswith s [] = True"
| "startswith [] (p # ps) = False"
| "startswith (c # cs) (p # ps) = (c = p \<and> startswith cs ps)"

fun str_in :: "string \<Rightarrow> string \<Rightarrow> bool" where
  "str_in sub [] = (sub = [])"
| "str_in sub (c # cs) = (startswith (c # cs) sub \<or> str_in sub cs)"

text \<open>\<^verbatim>\<open>sep.join(xs)\<close>\<close>

fun join :: "string \<Rightarrow> string list \<Rightarrow> string" where
  "join sep [] = []"
| "join sep [x] = x"
| "join sep (x # y # ys) = x @ sep @ join sep (y # ys)"

text \<open>\<^verbatim>\<open>any(word in s for word in words)\<close>\<close>

definition any_in :: "string list \<Rightarrow> string \<Rightarrow> bool" where
  "any_in words s = list_ex (\<lambda>word. str_in word s) words"

section \<open>generate\_catalog.py: genre and age classification\<close>

definition guess_genre :: "string \<Rightarrow> string \<Rightarrow> string list \<Rightarrow> string" where
  "guess_genre title author tags =
     (let title_lower = lower title;
          author_lower = (if author \<noteq> [] then lower author else [])
      in if any_in [''mystery'', ''detective'', ''murder'', ''crime''] title_lower then ''Mystery''
         else if any_in [''fantasy'', ''wizard'', ''magic'', ''dragon''] title_lower then ''Fantasy''
         else if any_in [''romance'', ''love'', ''heart''] title_lower then ''Romance''
         else if any_in [''horror'', ''terror'', ''vampire'', ''zombie''] title_lower then ''Horror''
         else if any_in [''science'', ''space'', ''robot'', ''future''] title_lower
           then ''Science Fiction''
         else if str_in ''children'' (lower (join '' '' tags)) \<or> str_in ''kid'' title_lower
           then ''Children's Literature''
         else if str_in ''dickens'' author_lower \<or> str_in ''austen'' author_lower
           then ''Classic Literature''
         else ''Fiction'')"

definition guess_age_rating :: "string \<Rightarrow> string \<Rightarrow> string list \<Rightarrow> string" where
  "guess_age_rating title genre tags =
     (let title_lower = lower title;
          genre_lower = lower genre;
          tags_lower = lower (join '' '' tags)
      in if any_in [''children'', ''kid'', ''little'', ''pooh'', ''curious george''] title_lower
           then ''Children''
         else if str_in ''children'' tags_lower \<or> str_in ''picture book'' tags_lower
           then ''Children''
         else if any_in [''hardy boys'', ''nancy drew'', ''young''] title_lower
           then ''Young Adult''
         else if str_in ''young adult'' tags_lower \<or> str_in ''ya'' tags_lower
           then ''Young Adult''
         else if genre_lower \<in> set [''horror'', ''gothic''] then ''Young Adult''
         else ''Adult'')"


section \<open>EPUB files and directories\<close>

text \<open>
  What \<^verbatim>\<open>ebooklib\<close> reads from an EPUB: the items of the package with their type, id,
  file name and content, the \<open>content\<close> attribute of each OPF \<open>cover\<close> metadata entry
  (\<open>None\<close> when the entry has no such attribute) and the text of each Dublin Core entry
  (\<open>None\<close> for an entry without text).
\<close>

datatype item_type =
  ITEM_UNKNOWN | ITEM_IMAGE | ITEM_STYLE | ITEM_SCRIPT | ITEM_NAVIGATION | ITEM_VECTOR
| ITEM_FONT | ITEM_VIDEO | ITEM_AUDIO | ITEM_DOCUMENT | ITEM_COVER | ITEM_SMIL

record epub_item =
  get_type :: item_type
  get_id :: string
  get_name :: string
  get_content :: string

record epub_book =
  get_items :: "epub_item list"
  opf_cover :: "string option list"
  dc_title :: "string option list"
  dc_creator :: "string option list"
  dc_language :: "string option list"
  dc_description :: "string option list"

text \<open>
  A file of a directory: its name, what \<^verbatim>\<open>epub.read_epub\<close> makes of it (\<open>None\<close> when
  it raises) and its size in bytes.
\<close>

record dir_entry =
  entry_name :: string
  read_epub :: "epub_book option"
  entry_size :: nat

text \<open>\<^verbatim>\<open>name.rfind(c)\<close> and \<^verbatim>\<open>Path.stem\<close>: the name up to its last dot, when that
  dot is neither the first nor the last character.\<close>

fun rfind :: "char \<Rightarrow> string \<Rightarrow> nat option" where
  "rfind c [] = None"
| "rfind c (x # xs) =
     (case rfind c xs of
        Some i \<Rightarrow> Some (Suc i)
      | None \<Rightarrow> if x = c then Some 0 else None)"

definition stem :: "string \<Rightarrow> string" where
  "stem name =
     (case rfind CHR ''.'' name of
        None \<Rightarrow> name
      | Some i \<Rightarrow> if 0 < i \<and> i < length name - 1 then take i name else name)"

text \<open>\<^verbatim>\<open>x or default\<close> for an optional string: \<open>None\<close> and the empty string are falsy.\<close>

definition or_else :: "string option \<Rightarrow> string \<Rightarrow> string" where
  "or_else x d = (case x of None \<Rightarrow> d | Some s \<Rightarrow> if s = [] then d else s)"

text \<open>\<^verbatim>\<open>m[0][0]\<close> of a metadata list that is not empty.\<close>

definition first_value :: "string option list \<Rightarrow> string option" where
  "first_value m = (case m of [] \<Rightarrow> None | v # _ \<Rightarrow> v)"

section \<open>generate\_catalog.py: metadata and book entries\<close>

record metadata =
  md_title :: "string option"
  md_author :: "string option"
  md_language :: "string option"
  md_description :: "string option"

text \<open>
  \<open>EBOOKLIB_AVAILABLE\<close> is the module's flag. The \<^verbatim>\<open>try\<close> block raises where
  \<^verbatim>\<open>read_epub\<close> does; the handler then sets the title from the file name.
\<close>

definition extract_epub_metadata :: "bool \<Rightarrow> dir_entry \<Rightarrow> metadata" where
  "extract_epub_metadata EBOOKLIB_AVAILABLE epub_path =
     (let metadata = \<lparr>md_title = None, md_author = None, md_language = None,
                       md_description = None\<rparr>
      in if \<not> EBOOKLIB_AVAILABLE
         then metadata\<lparr>md_title :=
                Some (str_title (replace CHR ''_'' '' '' (replace CHR ''-'' '' ''
                  (stem (entry_name epub_path)))))\<rparr>
         else (case read_epub epub_path of
                 None \<Rightarrow>
                   metadata\<lparr>md_title :=
                     Some (str_title (replace CHR ''_'' '' '' (replace CHR ''-'' '' ''
                       (stem (entry_name epub_path)))))\<rparr>
               | Some book \<Rightarrow>
                   \<lparr>md_title = (if dc_title book \<noteq> [] then first_value (dc_title book)
                                else md_title metadata),
                    md_author = (if dc_creator book \<noteq> [] then first_value (dc_creator book)
                                 else md_author metadata),
                    md_language = (if dc_language book \<noteq> []
                                   then first_value (dc_language book)
                                   else md_language metadata),
                    md_description = (if dc_description book \<noteq> []
                                      then first_value (dc_description book)
                                      else md_description metadata)\<rparr>))"

record book =
  book_id :: string
  book_title :: string
  book_author :: string
  book_age :: string
  book_genre :: string
  book_tags :: "string list"
  book_description :: string
  book_storageUrl :: string
  book_coverImageUrl :: "string option"
  book_fileSizeBytes :: nat
  book_isFeatured :: bool

text \<open>
  \<open>covers_dir\<close> is the list of the file names of the covers directory, \<open>None\<close> when no
  directory was given or it does not exist.
\<close>

definition generate_book_entry ::
  "bool \<Rightarrow> dir_entry \<Rightarrow> string \<Rightarrow> string list option \<Rightarrow> book" where
  "generate_book_entry EBOOKLIB_AVAILABLE epub_path firebase_path covers_dir =
     (let metadata = extract_epub_metadata EBOOKLIB_AVAILABLE epub_path;
          bid = lower (stem (entry_name epub_path));
          file_size = entry_size epub_path;
          tags = [''Classic''];
          title = or_else (md_title metadata)
                    (str_title (replace CHR ''-'' '' '' (stem (entry_name epub_path))));
          author = or_else (md_author metadata) ''Unknown'';
          genre = guess_genre title author tags;
          age = guess_age_rating title genre tags;
          cover_image_url =
            (case covers_dir of
               None \<Rightarrow> None
             | Some files \<Rightarrow>
                 if bid @ ''.png'' \<in> set files then Some (''BookCovers/'' @ bid @ ''.png'')
                 else None)
      in \<lparr>book_id = bid, book_title = title, book_author = author, book_age = age,
          book_genre = genre, book_tags = tags,
          book_description = or_else (md_description metadata)
            (''A '' @ lower genre @ '' book by '' @ author @ ''.''),
          book_storageUrl = firebase_path @ ''/'' @ entry_name epub_path,
          book_coverImageUrl = cover_image_url,
          book_fileSizeBytes = file_size,
          book_isFeatured = False\<rparr>)"


section \<open>generate\_catalog.py: collections and the catalog\<close>

record collection =
  coll_id :: string
  coll_name :: string
  coll_description :: string
  coll_sortOrder :: nat
  coll_coverImageUrl :: "string option"
  coll_bookIds :: "string list"

text \<open>
  A Python dictionary of lists, in insertion order.
  \<^verbatim>\<open>if k not in d: d[k] = []\<close> followed by \<^verbatim>\<open>d[k].append(v)\<close>:
\<close>

fun dict_append ::
  "(string \<times> string list) list \<Rightarrow> string \<Rightarrow> string \<Rightarrow> (string \<times> string list) list" where
  "dict_append [] k v = [(k, [v])]"
| "dict_append ((k', vs) # d) k v =
     (if k' = k then (k', vs @ [v]) # d else (k', vs) # dict_append d k v)"

definition age_order :: "string list" where
  "age_order = [''Children'', ''Young Adult'', ''Adult'']"

text \<open>The body of the loop over \<open>age_order\<close>.\<close>

definition age_step ::
  "(string \<times> string list) list \<Rightarrow> string \<Rightarrow> collection list \<times> nat \<Rightarrow> collection list \<times> nat" where
  "age_step ages age st =
     (case st of (collections, sort_order) \<Rightarrow>
        (case map_of ages age of
           None \<Rightarrow> (collections, sort_order)
         | Some ids \<Rightarrow>
             if ids \<noteq> []
             then (collections @
                     [\<lparr>coll_id = replace CHR '' '' ''-'' (lower age),
                       coll_name = age @ '' Books'',
                       coll_description = ''Books suitable for '' @ lower age @ '' readers'',
                       coll_sortOrder = sort_order,
                       coll_coverImageUrl = None,
                       coll_bookIds = ids\<rparr>],
                   sort_order + 1)
             else (collections, sort_order)))"

text \<open>The body of the loop over the sorted items of \<open>genres\<close>.\<close>

definition genre_step ::
  "string \<times> string list \<Rightarrow> collection list \<times> nat \<Rightarrow> collection list \<times> nat" where
  "genre_step item st =
     (case item of (genre, book_ids) \<Rightarrow>
      (case st of (collections, sort_order) \<Rightarrow>
        if length book_ids \<ge> 2
        then (collections @
                [\<lparr>coll_id = replace (CHR 0x27) [] (replace CHR '' '' ''-'' (lower genre)),
                  coll_name = genre,
                  coll_description = genre @ '' books from our collection'',
                  coll_sortOrder = sort_order,
                  coll_coverImageUrl = None,
                  coll_bookIds = book_ids\<rparr>],
              sort_order + 1)
        else (collections, sort_order)))"

definition create_collections :: "book list \<Rightarrow> collection list" where
  "create_collections books =
     (let genres = fold (\<lambda>b d. dict_append d (book_genre b) (book_id b)) books [];
          ages = fold (\<lambda>b d. dict_append d (book_age b) (book_id b)) books [];
          collections = [];
          sort_order = 0;
          collections = collections @
            [\<lparr>coll_id = ''all'',
              coll_name = ''All Books'',
              coll_description = ''Complete library collection'',
              coll_sortOrder = sort_order,
              coll_coverImageUrl = None,
              coll_bookIds = map book_id books\<rparr>];
          sort_order = sort_order + 1;
          st = fold (age_step ages) age_order (collections, sort_order);
          st = fold genre_step (sort_key fst genres) st
      in fst st)"

text \<open>\<^verbatim>\<open>s.endswith(suffix)\<close>, and \<^verbatim>\<open>epubs_dir.glob("*.epub")\<close> over the files of a
  directory.\<close>

definition endswith :: "string \<Rightarrow> string \<Rightarrow> bool" where
  "endswith s suffix = startswith (rev s) (rev suffix)"

definition glob_epub :: "dir_entry list \<Rightarrow> dir_entry list" where
  "glob_epub epubs_dir = filter (\<lambda>f. endswith (entry_name f) ''.epub'') epubs_dir"

record catalog =
  cat_version :: nat
  cat_lastUpdated :: string
  cat_collections :: "collection list"
  cat_books :: "book list"

text \<open>\<open>today\<close> is the date that \<^verbatim>\<open>datetime.now()\<close> gives; \<open>None\<close> is the function's
  \<^verbatim>\<open>return None\<close>.\<close>

definition generate_catalog ::
  "bool \<Rightarrow> string \<Rightarrow> dir_entry list \<Rightarrow> string \<Rightarrow> string list option \<Rightarrow> catalog option" where
  "generate_catalog EBOOKLIB_AVAILABLE today epubs_dir firebase_path covers_dir =
     (let epub_files = glob_epub epubs_dir
      in if epub_files = [] then None
         else
           (let books = map (\<lambda>epub_file.
                   generate_book_entry EBOOKLIB_AVAILABLE epub_file firebase_path covers_dir)
                   (sort_key entry_name epub_files);
                collections = create_collections books
            in Some \<lparr>cat_version = 1, cat_lastUpdated = today,
                      cat_collections = collections, cat_books = books\<rparr>))"

text \<open>
  \<^verbatim>\<open>main\<close> of generate\_catalog.py: the exit code and the catalog written to the output
  file. \<open>epubs_dir\<close> is \<open>None\<close> when the directory does not exist.
\<close>

definition generate_catalog_main ::
  "bool \<Rightarrow> string \<Rightarrow> dir_entry list option \<Rightarrow> string \<Rightarrow> string list option
     \<Rightarrow> nat \<times> catalog option" where
  "generate_catalog_main EBOOKLIB_AVAILABLE today epubs_dir firebase_path covers_dir =
     (case epubs_dir of
        None \<Rightarrow> (1, None)
      | Some files \<Rightarrow>
          (case generate_catalog EBOOKLIB_AVAILABLE today files firebase_path covers_dir of
             None \<Rightarrow> (1, None)
           | Some catalog \<Rightarrow> (0, Some catalog)))"


section \<open>extract\_covers.py\<close>

text \<open>
  \<^verbatim>\<open>if cover_image:\<close> holds for bytes that are not empty; \<open>truthy\<close> gives those bytes.
\<close>

definition truthy :: "string option \<Rightarrow> string option" where
  "truthy x = (case x of None \<Rightarrow> None | Some data \<Rightarrow> if data = [] then None else Some data)"

definition cover_names :: "string list" where
  "cover_names = [''cover.jpg'', ''cover.jpeg'', ''cover.png'', ''cover.gif'',
                  ''Cover.jpg'', ''Cover.png'', ''COVER.JPG'', ''COVER.PNG'']"

text \<open>
  Each loop over the items stops at the first item that passes its test and stores that
  item's content in \<open>cover_image\<close>; a loop that finds none leaves the variable as it was.
  The result is \<open>None\<close> where \<^verbatim>\<open>read_epub\<close> raises.
\<close>

definition extract_cover_from_epub :: "dir_entry \<Rightarrow> string option" where
  "extract_cover_from_epub epub_path =
     (case read_epub epub_path of
        None \<Rightarrow> None
      | Some book \<Rightarrow>
          (let cover_image = None;
               cover_image =
                 (case find (\<lambda>item. get_type item = ITEM_COVER) (get_items book) of
                    Some item \<Rightarrow> Some (get_content item)
                  | None \<Rightarrow> cover_image)
           in if truthy cover_image \<noteq> None then cover_image
              else
                (let cover_meta = opf_cover book;
                     cover_image =
                       (case cover_meta of
                          [] \<Rightarrow> cover_image
                        | attrs # _ \<Rightarrow>
                            (let cover_id = (case attrs of None \<Rightarrow> [] | Some c \<Rightarrow> c)
                             in case find (\<lambda>item. get_id item = cover_id) (get_items book) of
                                  Some item \<Rightarrow> Some (get_content item)
                                | None \<Rightarrow> cover_image))
                 in if truthy cover_image \<noteq> None then cover_image
                    else
                      (let cover_image =
                             (case find (\<lambda>item. get_type item = ITEM_IMAGE \<and>
                                       (any_in cover_names (get_name item) \<or>
                                        str_in ''cover'' (lower (get_name item))))
                                     (get_items book) of
                                Some item \<Rightarrow> Some (get_content item)
                              | None \<Rightarrow> cover_image)
                       in if truthy cover_image \<noteq> None then cover_image
                          else
                            (case find (\<lambda>item. get_type item = ITEM_IMAGE) (get_items book) of
                               Some item \<Rightarrow> Some (get_content item)
                             | None \<Rightarrow> cover_image)))))"

text \<open>
  The content of an output file: bytes copied as they are, or the PNG encoding of an
  image of a width and a height. The image is a thumbnail of image data, a placeholder
  drawn from a colour pair, a title and an author, or a rectangle of one colour.
\<close>

type_synonym rgb = "nat \<times> nat \<times> nat"

datatype picture =
  Thumbnail string
| Placeholder "rgb \<times> rgb" string "string option"
| Rectangle rgb

datatype file_data = Bytes string | PNG nat nat picture

text \<open>
  What the scripts take from the Python runtime and from Pillow: the built-in
  \<^verbatim>\<open>hash\<close> of the running process, the size of the thumbnail that Pillow makes of image
  data within a bound (\<open>None\<close> when Pillow raises), and whether drawing and saving a
  placeholder go through without an exception.
\<close>

record runtime =
  py_hash :: "string \<Rightarrow> int"
  pil_thumbnail :: "string \<Rightarrow> nat \<Rightarrow> nat \<Rightarrow> (nat \<times> nat) option"
  pil_draw :: "rgb \<times> rgb \<Rightarrow> string \<Rightarrow> string option \<Rightarrow> nat \<Rightarrow> nat \<Rightarrow> bool"

definition resize_and_optimize_cover :: "runtime \<Rightarrow> string \<Rightarrow> nat \<Rightarrow> nat \<Rightarrow> file_data" where
  "resize_and_optimize_cover rt image_data max_width max_height =
     (case pil_thumbnail rt image_data max_width max_height of
        Some (w, h) \<Rightarrow> PNG w h (Thumbnail image_data)
      | None \<Rightarrow> Bytes image_data)"

definition colors :: "(rgb \<times> rgb) list" where
  "colors = [((139, 92, 246), (124, 58, 237)),
             ((236, 72, 153), (219, 39, 119)),
             ((16, 185, 129), (5, 150, 105)),
             ((245, 158, 11), (217, 119, 6)),
             ((59, 130, 246), (37, 99, 235)),
             ((239, 68, 68), (220, 38, 38))]"

text \<open>\<^verbatim>\<open>colors[abs(hash(book_id)) % len(colors)]\<close>\<close>

definition color_pair :: "(string \<Rightarrow> int) \<Rightarrow> string \<Rightarrow> rgb \<times> rgb" where
  "color_pair hash bid = colors ! nat (\<bar>hash bid\<bar> mod int (length colors))"

text \<open>
  A title that is \<open>None\<close> makes \<^verbatim>\<open>title.split()\<close> raise; every exception of the
  \<^verbatim>\<open>try\<close> block ends in the handler's rectangle. The handler itself is taken to
  succeed, as it does for the size of 300 by 450 that the program passes.
\<close>

definition create_placeholder_cover ::
  "runtime \<Rightarrow> string \<Rightarrow> string option \<Rightarrow> string option \<Rightarrow> nat \<Rightarrow> nat \<Rightarrow> file_data" where
  "create_placeholder_cover rt bid title author width height =
     (case title of
        None \<Rightarrow> PNG width height (Rectangle (100, 100, 150))
      | Some t \<Rightarrow>
          if pil_draw rt (color_pair (py_hash rt) bid) t author width height
          then PNG width height (Placeholder (color_pair (py_hash rt) bid) t author)
          else PNG width height (Rectangle (100, 100, 150)))"

text \<open>
  The output directory maps the name of each of its files to the file's content. The body
  of the loop of \<^verbatim>\<open>extract_all_covers\<close>, for one EPUB file:
\<close>

definition process_epub ::
  "runtime \<Rightarrow> bool \<Rightarrow> dir_entry \<Rightarrow> (string \<rightharpoonup> file_data) \<Rightarrow> (string \<rightharpoonup> file_data)" where
  "process_epub rt create_placeholders epub_file output_dir =
     (let bid = lower (stem (entry_name epub_file));
          output_file = bid @ ''.png''
      in if output_dir output_file \<noteq> None then output_dir
         else
           (case truthy (extract_cover_from_epub epub_file) of
              Some cover_data \<Rightarrow>
                output_dir(output_file \<mapsto> resize_and_optimize_cover rt cover_data 300 450)
            | None \<Rightarrow>
                if create_placeholders
                then (case read_epub epub_file of
                        None \<Rightarrow> output_dir
                      | Some book \<Rightarrow>
                          (let title = (if dc_title book \<noteq> [] then first_value (dc_title book)
                                        else Some (str_title (replace CHR ''-'' '' ''
                                               (stem (entry_name epub_file)))));
                               author = (if dc_creator book \<noteq> []
                                         then first_value (dc_creator book)
                                         else Some ''Unknown'')
                           in output_dir(output_file \<mapsto>
                                create_placeholder_cover rt bid title author 300 450)))
                else output_dir))"

definition extract_all_covers ::
  "runtime \<Rightarrow> dir_entry list \<Rightarrow> (string \<rightharpoonup> file_data) \<Rightarrow> bool \<Rightarrow> (string \<rightharpoonup> file_data)" where
  "extract_all_covers rt epubs_dir output_dir create_placeholders =
     (let epub_files = glob_epub epubs_dir
      in if epub_files = [] then output_dir
         else fold (process_epub rt create_placeholders) (sort_key entry_name epub_files)
                output_dir)"

text \<open>
  \<^verbatim>\<open>main\<close> of extract\_covers.py: the exit code and the output directory afterwards.
  \<open>epubs_dir\<close> is \<open>None\<close> when the directory does not exist.
\<close>

definition extract_covers_main ::
  "runtime \<Rightarrow> dir_entry list option \<Rightarrow> (string \<rightharpoonup> file_data) \<Rightarrow> bool
     \<Rightarrow> nat \<times> (string \<rightharpoonup> file_data)" where
  "extract_covers_main rt epubs_dir output_dir no_placeholders =
     (case epubs_dir of
        None \<Rightarrow> (1, output_dir)
      | Some files \<Rightarrow> (0, extract_all_covers rt files output_dir (\<not> no_placeholders)))"


section \<open>The specification's rule tables\<close>

text \<open>
  The five keyword rules of the genre table that read the title, in priority order, and
  the first rule of a table that matches.
\<close>

definition title_genre_rules :: "(string list \<times> string) list" where
  "title_genre_rules =
     [([''mystery'', ''detective'', ''murder'', ''crime''], ''Mystery''),
      ([''fantasy'', ''wizard'', ''magic'', ''dragon''], ''Fantasy''),
      ([''romance'', ''love'', ''heart''], ''Romance''),
      ([''horror'', ''terror'', ''vampire'', ''zombie''], ''Horror''),
      ([''science'', ''space'', ''robot'', ''future''], ''Science Fiction'')]"

definition first_matching_rule :: "(string list \<times> string) list \<Rightarrow> string \<Rightarrow> string option" where
  "first_matching_rule rules s =
     (case find (\<lambda>rule. any_in (fst rule) s) rules of
        None \<Rightarrow> None
      | Some rule \<Rightarrow> Some (snd rule))"

text \<open>
  The four methods of the cover search, in the order of the specification: each gives the
  item it matches, if any.
\<close>

definition cover_search_order :: "(epub_book \<Rightarrow> epub_item option) list" where
  "cover_search_order =
     [\<lambda>book. find (\<lambda>item. get_type item = ITEM_COVER) (get_items book),
      \<lambda>book. (case opf_cover book of
                 [] \<Rightarrow> None
               | attrs # _ \<Rightarrow>
                   find (\<lambda>item. get_id item = (case attrs of None \<Rightarrow> [] | Some c \<Rightarrow> c))
                     (get_items book)),
      \<lambda>book. find (\<lambda>item. get_type item = ITEM_IMAGE \<and>
                        (any_in cover_names (get_name item) \<or>
                         str_in ''cover'' (lower (get_name item))))
                (get_items book),
      \<lambda>book. find (\<lambda>item. get_type item = ITEM_IMAGE) (get_items book)]"

text \<open>
  The search in the words of the specification, where the first match wins: the content
  of the item that the first method with a match gives.
\<close>

definition literal_first_match :: "epub_book \<Rightarrow> string option" where
  "literal_first_match book =
     (case List.map_filter (\<lambda>method. method book) cover_search_order of
        [] \<Rightarrow> None
      | item # _ \<Rightarrow> Some (get_content item))"

text \<open>
  The amended search, which passes over a match whose content is empty: the first content
  that is not empty among the contents of the matches, in the order of the methods.
\<close>

definition first_match_cover :: "epub_book \<Rightarrow> string option" where
  "first_match_cover book =
     (case filter (\<lambda>data. data \<noteq> [])
             (map get_content (List.map_filter (\<lambda>method. method book) cover_search_order)) of
        [] \<Rightarrow> None
      | data # _ \<Rightarrow> Some data)"


text \<open>
  The ids of the books that have the value \<open>v\<close> in a field, in the order of the book list;
  the slug of a name: lower-cased, spaces replaced by hyphens, apostrophes stripped.
\<close>

definition ids_with :: "(book \<Rightarrow> string) \<Rightarrow> string \<Rightarrow> book list \<Rightarrow> string list" where
  "ids_with field v books = map book_id (filter (\<lambda>b. field b = v) books)"

definition slugify :: "string \<Rightarrow> string" where
  "slugify name = replace (CHR 0x27) [] (replace CHR '' '' ''-'' (lower name))"

text \<open>
  The age categories that have a book, in the fixed order, and the genres that have two
  books or more, in alphabetical order.
\<close>

definition populated_ages :: "book list \<Rightarrow> string list" where
  "populated_ages books = filter (\<lambda>a. ids_with book_age a books \<noteq> []) age_order"

definition genres_with_two :: "book list \<Rightarrow> string list" where
  "genres_with_two books =
     filter (\<lambda>g. 2 \<le> length (ids_with book_genre g books))
       (sort (remdups (map book_genre books)))"

text \<open>The three kinds of record that \<open>create_collections\<close> appends.\<close>

definition all_books_collection :: "book list \<Rightarrow> collection" where
  "all_books_collection books =
     \<lparr>coll_id = ''all'',
      coll_name = ''All Books'',
      coll_description = ''Complete library collection'',
      coll_sortOrder = 0,
      coll_coverImageUrl = None,
      coll_bookIds = map book_id books\<rparr>"

definition age_collection :: "nat \<Rightarrow> string \<Rightarrow> string list \<Rightarrow> collection" where
  "age_collection k age ids =
     \<lparr>coll_id = replace CHR '' '' ''-'' (lower age),
      coll_name = age @ '' Books'',
      coll_description = ''Books suitable for '' @ lower age @ '' readers'',
      coll_sortOrder = k,
      coll_coverImageUrl = None,
      coll_bookIds = ids\<rparr>"

definition genre_collection :: "nat \<Rightarrow> string \<Rightarrow> string list \<Rightarrow> collection" where
  "genre_collection k genre ids =
     \<lparr>coll_id = replace (CHR 0x27) [] (replace CHR '' '' ''-'' (lower genre)),
      coll_name = genre,
      coll_description = genre @ '' books from our collection'',
      coll_sortOrder = k,
      coll_coverImageUrl = None,
      coll_bookIds = ids\<rparr>"

text \<open>
  The title and the author that the loop body reads for the placeholder of an EPUB.
\<close>

definition placeholder_title :: "dir_entry \<Rightarrow> epub_book \<Rightarrow> string option" where
  "placeholder_title epub_file book =
     (if dc_title book \<noteq> [] then first_value (dc_title book)
      else Some (str_title (replace CHR ''-'' '' '' (stem (entry_name epub_file)))))"

definition placeholder_author :: "epub_book \<Rightarrow> string option" where
  "placeholder_author book =
     (if dc_creator book \<noteq> [] then first_value (dc_creator book) else Some ''Unknown'')"

text \<open>
  The name of the output file of an EPUB, and the content that the loop body writes for
  an EPUB whose output file does not exist yet (\<open>None\<close> when it writes nothing).
\<close>

definition output_file :: "dir_entry \<Rightarrow> string" where
  "output_file epub_file = lower (stem (entry_name epub_file)) @ ''.png''"

definition new_cover :: "runtime \<Rightarrow> bool \<Rightarrow> dir_entry \<Rightarrow> file_data option" where
  "new_cover rt create_placeholders epub_file =
     (case truthy (extract_cover_from_epub epub_file) of
        Some cover_data \<Rightarrow> Some (resize_and_optimize_cover rt cover_data 300 450)
      | None \<Rightarrow>
          if create_placeholders
          then (case read_epub epub_file of
                  None \<Rightarrow> None
                | Some book \<Rightarrow>
                    Some (create_placeholder_cover rt (lower (stem (entry_name epub_file)))
                      (if dc_title book \<noteq> [] then first_value (dc_title book)
                       else Some (str_title (replace CHR ''-'' '' ''
                              (stem (entry_name epub_file)))))
                      (if dc_creator book \<noteq> [] then first_value (dc_creator book)
                       else Some ''Unknown'')
                      300 450))
          else None)"

section \<open>Sample inputs\<close>

text \<open>
  A book with an id, a genre and an age; an EPUB without items and metadata; a process
  whose hash is constant and whose Pillow calls go through.
\<close>

definition book_of :: "string \<Rightarrow> string \<Rightarrow> string \<Rightarrow> book" where
  "book_of bid genre age =
     \<lparr>book_id = bid, book_title = bid, book_author = ''Unknown'', book_age = age,
      book_genre = genre, book_tags = [''Classic''], book_description = [],
      book_storageUrl = [], book_coverImageUrl = None, book_fileSizeBytes = 0,
      book_isFeatured = False\<rparr>"

definition empty_epub :: epub_book where
  "empty_epub = \<lparr>get_items = [], opf_cover = [], dc_title = [], dc_creator = [],
                  dc_language = [], dc_description = []\<rparr>"

definition sample_runtime :: runtime where
  "sample_runtime =
     \<lparr>py_hash = (\<lambda>_. 0), pil_thumbnail = (\<lambda>_ w h. Some (w, h)),
      pil_draw = (\<lambda>_ _ _ _ _. True)\<rparr>"

section \<open>Exit codes\<close>

text \<open>
  C1. Both tools are to exit with code 1 when the input directory is missing or holds no
  EPUB file, and with code 0 otherwise. The catalog generator does; the cover extractor
  exits with code 0 for a directory that exists and holds no EPUB file, since
  \<open>extract_all_covers\<close> returns nothing and \<open>main\<close> returns 0 after it. Both exit with
  code 1 for a missing directory.
\<close>

theorem no_epubs_exit_codes:
  "fst (extract_covers_main
          \<lparr>py_hash = (\<lambda>_. 0), pil_thumbnail = (\<lambda>_ _ _. None), pil_draw = (\<lambda>_ _ _ _ _. True)\<rparr>
          (Some [\<lparr>entry_name = ''notes.txt'', read_epub = None, entry_size = 5\<rparr>])
          Map.empty False) = 0 \<and>
   fst (generate_catalog_main True ''2024-01-01''
          (Some [\<lparr>entry_name = ''notes.txt'', read_epub = None, entry_size = 5\<rparr>])
          ''epubs'' None) = 1 \<and>
   fst (extract_covers_main
          \<lparr>py_hash = (\<lambda>_. 0), pil_thumbnail = (\<lambda>_ _ _. None), pil_draw = (\<lambda>_ _ _ _ _. True)\<rparr>
          None Map.empty False) = 1 \<and>
   fst (generate_catalog_main True ''2024-01-01'' None ''epubs'' None) = 1"
  by (simp add: extract_covers_main_def generate_catalog_main_def generate_catalog_def
        glob_epub_def endswith_def)

section \<open>Genre classification\<close>

text \<open>
  C3, as amended. The genre is that of the first rule that matches, in priority order:
  the five keyword rules read the lower-cased title; then \<open>children\<close> in the lower-cased
  tag text or \<open>kid\<close> in the lower-cased title gives Children's Literature; then Dickens
  or Austen in the lower-cased author gives Classic Literature; otherwise Fiction. In
  particular a title that contains \<open>kid\<close> and no keyword of an earlier rule gives
  Children's Literature.
\<close>

theorem guess_genre_rule_order:
  "guess_genre title author tags =
     (case first_matching_rule title_genre_rules (lower title) of
        Some genre \<Rightarrow> genre
      | None \<Rightarrow>
          if str_in ''children'' (lower (join '' '' tags)) \<or> str_in ''kid'' (lower title)
          then ''Children's Literature''
          else if str_in ''dickens'' (lower author) \<or> str_in ''austen'' (lower author)
          then ''Classic Literature''
          else ''Fiction'')
   \<and> (first_matching_rule title_genre_rules (lower title) = None \<and>
        str_in ''kid'' (lower title)
        \<longrightarrow> guess_genre title author tags = ''Children's Literature'')"
  by (simp add: guess_genre_def first_matching_rule_def title_genre_rules_def lower_def)

theorem guess_genre_rule_order_witness:
  "first_matching_rule title_genre_rules (lower ''Kidnapped'') = None \<and>
   str_in ''kid'' (lower ''Kidnapped'') \<and>
   guess_genre ''Kidnapped'' ''Robert Louis Stevenson'' [''Classic''] =
     ''Children's Literature''"
proof -
  have none: "first_matching_rule title_genre_rules (lower ''Kidnapped'') = None"
    by code_simp
  have kid: "str_in ''kid'' (lower ''Kidnapped'')"
    by code_simp
  from guess_genre_rule_order [of "''Kidnapped''" "''Robert Louis Stevenson''" "[''Classic'']"]
    none kid show ?thesis by blast
qed

text \<open>
  The claim as written fails for a title that contains \<open>children\<close>: the code looks for
  that word in the tags only.
\<close>

theorem guess_genre_children_title_counterexample:
  "str_in ''children'' (lower ''The Railway Children'') \<and>
   first_matching_rule title_genre_rules (lower ''The Railway Children'') = None \<and>
   guess_genre ''The Railway Children'' ''E. Nesbit'' [''Classic''] = ''Fiction'' \<and>
   guess_genre ''The Railway Children'' ''E. Nesbit'' [''Classic''] \<noteq>
     ''Children's Literature''"
  by code_simp

section \<open>Titles from file names\<close>

text \<open>
  C5. An EPUB without a title is to get the title of its file name with hyphens and
  underscores replaced by spaces, in title case. For an EPUB that is read without error
  and has no title, \<open>generate_book_entry\<close> replaces the hyphens only; the handler for an
  EPUB that cannot be read replaces both. The author of both is \<open>Unknown\<close>.
\<close>

theorem missing_title_keeps_underscores:
  "book_title (generate_book_entry True
     \<lparr>entry_name = ''my_book.epub'',
      read_epub = Some \<lparr>get_items = [], opf_cover = [], dc_title = [], dc_creator = [],
                        dc_language = [], dc_description = []\<rparr>,
      entry_size = 10\<rparr> ''epubs'' None) = ''My_Book'' \<and>
   book_title (generate_book_entry True
     \<lparr>entry_name = ''my_book.epub'', read_epub = None, entry_size = 10\<rparr>
     ''epubs'' None) = ''My Book'' \<and>
   book_author (generate_book_entry True
     \<lparr>entry_name = ''my_book.epub'',
      read_epub = Some \<lparr>get_items = [], opf_cover = [], dc_title = [], dc_creator = [],
                        dc_language = [], dc_description = []\<rparr>,
      entry_size = 10\<rparr> ''epubs'' None) = ''Unknown''"
  by code_simp

section \<open>Placeholder colours\<close>

text \<open>
  C6, as amended. The colour pair of a placeholder is one of the six entries of the
  palette, and it depends on the book id through the value of the built-in \<open>hash\<close> only:
  where two hash values agree, the pairs agree.
\<close>

theorem color_pair_from_hash:
  "length colors = 6 \<and> color_pair hash bid \<in> set colors \<and>
   (hash bid = hash' bid' \<longrightarrow> color_pair hash bid = color_pair hash' bid')"
proof -
  have "nat (\<bar>hash bid\<bar> mod 6) < 6" by simp
  then have "colors ! nat (\<bar>hash bid\<bar> mod 6) \<in> set colors"
    by (intro nth_mem) (simp add: colors_def)
  then show ?thesis by (simp add: color_pair_def colors_def)
qed

theorem color_pair_from_hash_witness:
  "color_pair (\<lambda>_. 7) ''emma'' \<in> set colors \<and>
   color_pair (\<lambda>_. 7) ''emma'' = color_pair (\<lambda>s. int (length s) + 3) ''emma''"
proof -
  have same: "(\<lambda>_. 7) ''emma'' = (\<lambda>s. int (length s) + 3) ''emma''"
    by simp
  from color_pair_from_hash [of "\<lambda>_. 7" "''emma''" "\<lambda>s. int (length s) + 3" "''emma''"] same
  show ?thesis by blast
qed

text \<open>
  The claim as written fails across processes: Python salts the hash of a string per
  process, and the pair follows the hash value.
\<close>

theorem color_pair_counterexample:
  "color_pair (\<lambda>_. 0) ''emma'' = ((139, 92, 246), (124, 58, 237)) \<and>
   color_pair (\<lambda>_. 1) ''emma'' = ((236, 72, 153), (219, 39, 119)) \<and>
   color_pair (\<lambda>_. 0) ''emma'' \<noteq> color_pair (\<lambda>_. 1) ''emma''"
  by (simp add: color_pair_def colors_def)

section \<open>The cover search\<close>

lemma map_filter_as_map:
  "List.map_filter f xs = List.map_filter id (map f xs)"
  by (induction xs) (simp_all add: List.map_filter_simps split: option.splits)

lemma find_in_set: "find P xs = Some x \<Longrightarrow> x \<in> set xs"
  by (auto simp: find_Some_iff)

text \<open>
  C7, as amended. The search tries the four methods in the order of the specification
  and returns the content of the first match whose content is not empty. Where no match
  has content the result is empty bytes if a method matched and \<open>None\<close> if none did, and
  the caller takes both as no cover; it is \<open>None\<close> for a file that cannot be read. For an
  EPUB whose items all have content, the result is the content of the first match.
\<close>

theorem cover_search_first_nonempty_match:
  "(read_epub epub_path = None \<longrightarrow> extract_cover_from_epub epub_path = None) \<and>
   (\<forall>book. read_epub epub_path = Some book \<longrightarrow>
      extract_cover_from_epub epub_path =
        (case first_match_cover book of
           Some data \<Rightarrow> Some data
         | None \<Rightarrow>
             if List.map_filter (\<lambda>method. method book) cover_search_order = [] then None
             else Some [])) \<and>
   (\<forall>book. read_epub epub_path = Some book \<and>
        (\<forall>item \<in> set (get_items book). get_content item \<noteq> []) \<longrightarrow>
      extract_cover_from_epub epub_path = literal_first_match book)"
proof -
  have unreadable: "extract_cover_from_epub epub_path = None" if "read_epub epub_path = None"
    using that by (simp add: extract_cover_from_epub_def)
  have readable:
    "extract_cover_from_epub epub_path =
        (case first_match_cover book of
           Some data \<Rightarrow> Some data
         | None \<Rightarrow>
             if List.map_filter (\<lambda>method. method book) cover_search_order = [] then None
             else Some []) \<and>
     ((\<forall>item \<in> set (get_items book). get_content item \<noteq> []) \<longrightarrow>
        extract_cover_from_epub epub_path = literal_first_match book)"
    if rd: "read_epub epub_path = Some book" for book
  proof -
    define m1 where "m1 = find (\<lambda>item. get_type item = ITEM_COVER) (get_items book)"
    define m2 where "m2 = (case opf_cover book of
                   [] \<Rightarrow> None
                 | attrs # _ \<Rightarrow>
                     find (\<lambda>item. get_id item = (case attrs of None \<Rightarrow> [] | Some c \<Rightarrow> c))
                       (get_items book))"
    define m3 where "m3 = find (\<lambda>item. get_type item = ITEM_IMAGE \<and>
                          (any_in cover_names (get_name item) \<or>
                           str_in ''cover'' (lower (get_name item))))
                  (get_items book)"
    define m4 where "m4 = find (\<lambda>item. get_type item = ITEM_IMAGE) (get_items book)"
    have matches: "List.map_filter (\<lambda>method. method book) cover_search_order =
        List.map_filter id [m1, m2, m3, m4]"
      unfolding cover_search_order_def
      by (subst map_filter_as_map) (simp only: list.map m1_def m2_def m3_def m4_def)
    have m2': "(case opf_cover book of
                  [] \<Rightarrow> c
                | attrs # _ \<Rightarrow>
                    (case find (\<lambda>item. get_id item = (case attrs of None \<Rightarrow> [] | Some c \<Rightarrow> c))
                            (get_items book) of
                       Some item \<Rightarrow> Some (get_content item)
                     | None \<Rightarrow> c)) =
               (case m2 of Some item \<Rightarrow> Some (get_content item) | None \<Rightarrow> c)" for c
      by (simp add: m2_def split: list.splits)
    have code: "extract_cover_from_epub epub_path =
       (let c1 = (case m1 of Some item \<Rightarrow> Some (get_content item) | None \<Rightarrow> None)
        in if truthy c1 \<noteq> None then c1
           else (let c2 = (case m2 of Some item \<Rightarrow> Some (get_content item) | None \<Rightarrow> c1)
                 in if truthy c2 \<noteq> None then c2
                    else (let c3 = (case m3 of Some item \<Rightarrow> Some (get_content item) | None \<Rightarrow> c2)
                          in if truthy c3 \<noteq> None then c3
                             else (case m4 of Some item \<Rightarrow> Some (get_content item) | None \<Rightarrow> c3))))"
      unfolding extract_cover_from_epub_def rd option.case Let_def m2'
      by (simp only: m1_def m3_def m4_def)
    have exact: "extract_cover_from_epub epub_path =
        (case first_match_cover book of
           Some data \<Rightarrow> Some data
         | None \<Rightarrow>
             if List.map_filter (\<lambda>method. method book) cover_search_order = [] then None
             else Some [])"
      unfolding first_match_cover_def matches code
      by (cases m1; cases m2; cases m3; cases m4)
         (simp_all add: List.map_filter_simps truthy_def Let_def)
    have literal: "extract_cover_from_epub epub_path = literal_first_match book"
      if ne: "\<forall>item \<in> set (get_items book). get_content item \<noteq> []"
    proof -
      have in2: "x \<in> set (get_items book)" if "m2 = Some x" for x
        using that by (auto simp: m2_def split: list.splits dest: find_in_set)
      have n1: "get_content x \<noteq> []" if "m1 = Some x" for x
        using that ne by (auto simp: m1_def dest: find_in_set)
      have n2: "get_content x \<noteq> []" if "m2 = Some x" for x
        using in2 [OF that] ne by blast
      have n3: "get_content x \<noteq> []" if "m3 = Some x" for x
        using that ne by (auto simp: m3_def dest: find_in_set)
      have n4: "get_content x \<noteq> []" if "m4 = Some x" for x
        using that ne by (auto simp: m4_def dest: find_in_set)
      show ?thesis
        unfolding literal_first_match_def matches code
        by (cases m1; cases m2; cases m3; cases m4)
           (simp_all add: List.map_filter_simps truthy_def Let_def n1 n2 n3 n4)
    qed
    from exact literal show ?thesis by blast
  qed
  from unreadable readable show ?thesis by blast
qed

theorem cover_search_first_nonempty_match_witness:
  "extract_cover_from_epub
     \<lparr>entry_name = ''emma.epub'',
      read_epub = Some \<lparr>get_items =
          [\<lparr>get_type = ITEM_DOCUMENT, get_id = ''ch1'', get_name = ''ch1.xhtml'',
            get_content = ''text''\<rparr>,
           \<lparr>get_type = ITEM_IMAGE, get_id = ''img1'', get_name = ''images/map.png'',
            get_content = ''map''\<rparr>,
           \<lparr>get_type = ITEM_IMAGE, get_id = ''img2'', get_name = ''images/Cover.png'',
            get_content = ''front''\<rparr>],
          opf_cover = [], dc_title = [], dc_creator = [], dc_language = [],
          dc_description = []\<rparr>,
      entry_size = 10\<rparr> = Some ''front'' \<and>
   literal_first_match
     \<lparr>get_items =
          [\<lparr>get_type = ITEM_DOCUMENT, get_id = ''ch1'', get_name = ''ch1.xhtml'',
            get_content = ''text''\<rparr>,
           \<lparr>get_type = ITEM_IMAGE, get_id = ''img1'', get_name = ''images/map.png'',
            get_content = ''map''\<rparr>,
           \<lparr>get_type = ITEM_IMAGE, get_id = ''img2'', get_name = ''images/Cover.png'',
            get_content = ''front''\<rparr>],
          opf_cover = [], dc_title = [], dc_creator = [], dc_language = [],
          dc_description = []\<rparr> =
   extract_cover_from_epub
     \<lparr>entry_name = ''emma.epub'',
      read_epub = Some \<lparr>get_items =
          [\<lparr>get_type = ITEM_DOCUMENT, get_id = ''ch1'', get_name = ''ch1.xhtml'',
            get_content = ''text''\<rparr>,
           \<lparr>get_type = ITEM_IMAGE, get_id = ''img1'', get_name = ''images/map.png'',
            get_content = ''map''\<rparr>,
           \<lparr>get_type = ITEM_IMAGE, get_id = ''img2'', get_name = ''images/Cover.png'',
            get_content = ''front''\<rparr>],
          opf_cover = [], dc_title = [], dc_creator = [], dc_language = [],
          dc_description = []\<rparr>,
      entry_size = 10\<rparr>"
proof -
  let ?book = "\<lparr>get_items =
          [\<lparr>get_type = ITEM_DOCUMENT, get_id = ''ch1'', get_name = ''ch1.xhtml'',
            get_content = ''text''\<rparr>,
           \<lparr>get_type = ITEM_IMAGE, get_id = ''img1'', get_name = ''images/map.png'',
            get_content = ''map''\<rparr>,
           \<lparr>get_type = ITEM_IMAGE, get_id = ''img2'', get_name = ''images/Cover.png'',
            get_content = ''front''\<rparr>],
          opf_cover = [], dc_title = [], dc_creator = [], dc_language = [],
          dc_description = []\<rparr>"
  let ?e = "\<lparr>entry_name = ''emma.epub'', read_epub = Some ?book, entry_size = 10\<rparr>"
  have found: "first_match_cover ?book = Some ''front''"
    by code_simp
  have readable: "read_epub ?e = Some ?book" by simp
  have content: "\<forall>item \<in> set (get_items ?book). get_content item \<noteq> []" by simp
  note search = cover_search_first_nonempty_match [of ?e]
  from search readable have "extract_cover_from_epub ?e =
      (case first_match_cover ?book of
         Some data \<Rightarrow> Some data
       | None \<Rightarrow>
           if List.map_filter (\<lambda>method. method ?book) cover_search_order = [] then None
           else Some [])"
    by blast
  then have first: "extract_cover_from_epub ?e = Some ''front''"
    unfolding found by simp
  from search readable content have "extract_cover_from_epub ?e = literal_first_match ?book"
    by blast
  with first show ?thesis by simp
qed

text \<open>
  The claim as written fails for a match without content: the first method matches the
  cover-image item, whose content is empty, and the search goes on to the first image.
\<close>

theorem cover_search_counterexample:
  "literal_first_match
     \<lparr>get_items =
        [\<lparr>get_type = ITEM_COVER, get_id = ''cover'', get_name = ''cover.jpg'',
          get_content = []\<rparr>,
         \<lparr>get_type = ITEM_IMAGE, get_id = ''img1'', get_name = ''images/map.png'',
          get_content = ''map''\<rparr>],
      opf_cover = [], dc_title = [], dc_creator = [], dc_language = [],
      dc_description = []\<rparr> = Some [] \<and>
   extract_cover_from_epub
     \<lparr>entry_name = ''emma.epub'',
      read_epub = Some \<lparr>get_items =
        [\<lparr>get_type = ITEM_COVER, get_id = ''cover'', get_name = ''cover.jpg'',
          get_content = []\<rparr>,
         \<lparr>get_type = ITEM_IMAGE, get_id = ''img1'', get_name = ''images/map.png'',
          get_content = ''map''\<rparr>],
        opf_cover = [], dc_title = [], dc_creator = [], dc_language = [],
        dc_description = []\<rparr>,
      entry_size = 10\<rparr> = Some ''map''"
  by code_simp

section \<open>Collections\<close>

lemma dict_append_keys:
  "map fst (dict_append d k v) = (if k \<in> set (map fst d) then map fst d else map fst d @ [k])"
  by (induction d k v rule: dict_append.induct) auto

lemma dict_append_distinct:
  "distinct (map fst d) \<Longrightarrow> distinct (map fst (dict_append d k v))"
  by (simp add: dict_append_keys)

lemma dict_append_lookup:
  "map_of (dict_append d k v) k' =
     (if k' = k then Some ((case map_of d k of None \<Rightarrow> [] | Some vs \<Rightarrow> vs) @ [v])
      else map_of d k')"
  by (induction d k v rule: dict_append.induct) auto

lemma fold_dict_distinct:
  fixes field :: "book \<Rightarrow> string"
  shows "distinct (map fst d) \<Longrightarrow>
   distinct (map fst (fold (\<lambda>b d. dict_append d (field b) (book_id b)) books d))"
  by (induction books arbitrary: d) (simp_all add: dict_append_distinct)

lemma fold_dict_lookup:
  fixes field :: "book \<Rightarrow> string"
  shows "map_of (fold (\<lambda>b d. dict_append d (field b) (book_id b)) books d) k =
     (if ids_with field k books = [] then map_of d k
      else Some ((case map_of d k of None \<Rightarrow> [] | Some vs \<Rightarrow> vs) @ ids_with field k books))"
  by (induction books arbitrary: d) (auto simp: dict_append_lookup ids_with_def)

lemma grouped_lookup:
  fixes field :: "book \<Rightarrow> string"
  shows "map_of (fold (\<lambda>b d. dict_append d (field b) (book_id b)) books []) k =
     (if ids_with field k books = [] then None else Some (ids_with field k books))"
  by (simp add: fold_dict_lookup)

lemma grouped_keys:
  fixes field :: "book \<Rightarrow> string"
  shows "set (map fst (fold (\<lambda>b d. dict_append d (field b) (book_id b)) books [])) =
     set (map field books)"
proof -
  let ?d = "fold (\<lambda>b d. dict_append d (field b) (book_id b)) books []"
  have "set (map fst ?d) = dom (map_of ?d)"
    by (simp add: dom_map_of_conv_image_fst)
  also have "\<dots> = {k. ids_with field k books \<noteq> []}"
    by (auto simp: grouped_lookup dom_def)
  also have "\<dots> = set (map field books)"
    by (auto simp: ids_with_def filter_empty_conv)
  finally show ?thesis .
qed

text \<open>The sorted items of a dictionary of groups: one per value of the field, in order.\<close>

lemma sorted_items:
  fixes field :: "book \<Rightarrow> string"
  shows "sort_key fst (fold (\<lambda>b d. dict_append d (field b) (book_id b)) books []) =
     map (\<lambda>g. (g, ids_with field g books)) (sort (remdups (map field books)))"
proof -
  let ?d = "fold (\<lambda>b d. dict_append d (field b) (book_id b)) books []"
  let ?items = "sort_key fst ?d"
  have dist: "distinct (map fst ?d)"
    by (rule fold_dict_distinct) simp
  have "distinct (map fst ?items)"
    using dist by (simp add: distinct_map)
  moreover have "sorted (map fst ?items)" by simp
  moreover have "set (map fst ?items) = set (sort (remdups (map field books)))"
    using grouped_keys [of field books] by simp
  ultimately have keys: "map fst ?items = sort (remdups (map field books))"
    by (intro sorted_distinct_set_unique) simp_all
  have "snd x = ids_with field (fst x) books" if "x \<in> set ?items" for x
  proof -
    from that have "(fst x, snd x) \<in> set ?d" by simp
    with dist have "map_of ?d (fst x) = Some (snd x)" by (rule map_of_is_SomeI)
    then show ?thesis by (simp add: grouped_lookup split: if_splits)
  qed
  then have "map (\<lambda>x. (fst x, ids_with field (fst x) books)) ?items = ?items"
    by (intro map_idI) (simp add: prod_eq_iff)
  then have "?items = map (\<lambda>g. (g, ids_with field g books)) (map fst ?items)"
    by (simp add: comp_def)
  then show ?thesis by (simp only: keys)
qed

lemma fold_age_step:
  "fold (age_step (fold (\<lambda>b d. dict_append d (book_age b) (book_id b)) books [])) as (cs, n) =
     (cs @ map (\<lambda>(k, a). age_collection k a (ids_with book_age a books))
             (enumerate n (filter (\<lambda>a. ids_with book_age a books \<noteq> []) as)),
      n + length (filter (\<lambda>a. ids_with book_age a books \<noteq> []) as))"
  by (induction as arbitrary: cs n)
     (simp_all add: age_step_def grouped_lookup age_collection_def)

lemma fold_genre_step:
  "fold genre_step (map (\<lambda>g. (g, ids g)) gs) (cs, n) =
     (cs @ map (\<lambda>(k, g). genre_collection k g (ids g))
             (enumerate n (filter (\<lambda>g. 2 \<le> length (ids g)) gs)),
      n + length (filter (\<lambda>g. 2 \<le> length (ids g)) gs))"
  by (induction gs arbitrary: cs n)
     (simp_all add: genre_step_def genre_collection_def)

text \<open>
  The list that \<open>create_collections\<close> builds: All Books, the populated ages, the genres
  with two books or more, numbered in that order.
\<close>

lemma create_collections_eq:
  "create_collections books =
     all_books_collection books #
     map (\<lambda>(k, a). age_collection k a (ids_with book_age a books))
       (enumerate 1 (populated_ages books)) @
     map (\<lambda>(k, g). genre_collection k g (ids_with book_genre g books))
       (enumerate (1 + length (populated_ages books)) (genres_with_two books))"
  by (simp add: create_collections_def sorted_items fold_age_step fold_genre_step
        all_books_collection_def populated_ages_def genres_with_two_def)

lemma map_proj_enumerate:
  assumes "\<And>k x. h (F k x) = g x"
  shows "map h (map (\<lambda>(k, x). F k x) (enumerate n xs)) = map g xs"
  by (induction xs arbitrary: n) (simp_all add: assms)

lemma enumerate_snd_member:
  "(k, x) \<in> set (enumerate n xs) \<Longrightarrow> x \<in> set xs"
  by (auto simp: in_set_enumerate_eq)

lemma enumerate_member:
  "x \<in> set xs \<Longrightarrow> \<exists>k. (k, x) \<in> set (enumerate n xs)"
proof -
  assume "x \<in> set xs"
  then obtain i where "i < length xs" "xs ! i = x" by (auto simp: in_set_conv_nth)
  then have "(n + i, x) \<in> set (enumerate n xs)" by (simp add: in_set_enumerate_eq)
  then show ?thesis ..
qed

lemma age_slug_children: "replace CHR '' '' ''-'' (lower ''Children'') = slugify ''Children''"
  by code_simp

lemma age_slug_young_adult:
  "replace CHR '' '' ''-'' (lower ''Young Adult'') = slugify ''Young Adult''"
  by code_simp

lemma age_slug_adult: "replace CHR '' '' ''-'' (lower ''Adult'') = slugify ''Adult''"
  by code_simp

lemma age_slug:
  "a \<in> set age_order \<Longrightarrow> replace CHR '' '' ''-'' (lower a) = slugify a"
  using age_slug_children age_slug_young_adult age_slug_adult
  by (auto simp: age_order_def)

text \<open>
  C4, as amended. The id of every genre collection is the slug of its name. The All Books
  collection has the id \<open>all\<close>, and an age collection, named after the age category
  followed by \<open>Books\<close>, has the slug of the age category as its id.
\<close>

theorem collection_ids:
  "map (\<lambda>c. (coll_id c, coll_name c)) (create_collections books) =
     (''all'', ''All Books'') #
     map (\<lambda>a. (slugify a, a @ '' Books'')) (populated_ages books) @
     map (\<lambda>g. (slugify g, g)) (genres_with_two books)"
proof -
  have ages: "map (\<lambda>c. (coll_id c, coll_name c))
          (map (\<lambda>(k, a). age_collection k a (ids_with book_age a books))
            (enumerate 1 (populated_ages books))) =
        map (\<lambda>a. (replace CHR '' '' ''-'' (lower a), a @ '' Books'')) (populated_ages books)"
    by (rule map_proj_enumerate) (simp add: age_collection_def)
  have "map (\<lambda>a. (replace CHR '' '' ''-'' (lower a), a @ '' Books'')) (populated_ages books) =
        map (\<lambda>a. (slugify a, a @ '' Books'')) (populated_ages books)"
    by (rule map_cong) (simp_all add: populated_ages_def age_slug)
  with ages have ages': "map (\<lambda>c. (coll_id c, coll_name c))
          (map (\<lambda>(k, a). age_collection k a (ids_with book_age a books))
            (enumerate 1 (populated_ages books))) =
        map (\<lambda>a. (slugify a, a @ '' Books'')) (populated_ages books)"
    by simp
  have genres: "map (\<lambda>c. (coll_id c, coll_name c))
          (map (\<lambda>(k, g). genre_collection k g (ids_with book_genre g books))
            (enumerate (1 + length (populated_ages books)) (genres_with_two books))) =
        map (\<lambda>g. (slugify g, g)) (genres_with_two books)"
    by (rule map_proj_enumerate) (simp add: genre_collection_def slugify_def)
  show ?thesis
    unfolding create_collections_eq list.map map_append ages' genres
    by (simp add: all_books_collection_def)
qed

theorem collection_ids_witness:
  "map (\<lambda>c. (coll_id c, coll_name c))
     (create_collections
        [book_of ''emma'' ''Classic Literature'' ''Adult'',
         book_of ''persuasion'' ''Classic Literature'' ''Young Adult'']) =
   [(''all'', ''All Books''), (''young-adult'', ''Young Adult Books''),
    (''adult'', ''Adult Books''), (''classic-literature'', ''Classic Literature'')]"
proof -
  let ?bs = "[book_of ''emma'' ''Classic Literature'' ''Adult'',
              book_of ''persuasion'' ''Classic Literature'' ''Young Adult'']"
  have rhs: "(''all'', ''All Books'') #
     map (\<lambda>a. (slugify a, a @ '' Books'')) (populated_ages ?bs) @
     map (\<lambda>g. (slugify g, g)) (genres_with_two ?bs) =
   [(''all'', ''All Books''), (''young-adult'', ''Young Adult Books''),
    (''adult'', ''Adult Books''), (''classic-literature'', ''Classic Literature'')]"
    by code_simp
  show ?thesis
    by (rule trans [OF collection_ids rhs])
qed

text \<open>
  The claim as written fails for the All Books collection, whose id is not the slug of its
  name; the ids of the age collections are not the slugs of their names either.
\<close>

theorem collection_ids_counterexample:
  "hd (create_collections []) \<in> set (create_collections []) \<and>
   coll_name (hd (create_collections [])) = ''All Books'' \<and>
   coll_id (hd (create_collections [])) = ''all'' \<and>
   slugify (coll_name (hd (create_collections []))) = ''all-books'' \<and>
   coll_id (hd (create_collections [])) \<noteq> slugify (coll_name (hd (create_collections [])))"
  by code_simp

text \<open>
  C10. The names and the book ids of the generated collections, in order: All Books with
  the ids of all books; for each populated age the ids of the books of that age; for each
  genre with two books or more the ids of the books of that genre. Each id list is in the
  order of the book list.
\<close>

theorem collection_book_ids:
  "map (\<lambda>c. (coll_name c, coll_bookIds c)) (create_collections books) =
     (''All Books'', map book_id books) #
     map (\<lambda>a. (a @ '' Books'', map book_id (filter (\<lambda>b. book_age b = a) books)))
       (populated_ages books) @
     map (\<lambda>g. (g, map book_id (filter (\<lambda>b. book_genre b = g) books)))
       (genres_with_two books)"
proof -
  have ages: "map (\<lambda>c. (coll_name c, coll_bookIds c))
          (map (\<lambda>(k, a). age_collection k a (ids_with book_age a books))
            (enumerate 1 (populated_ages books))) =
        map (\<lambda>a. (a @ '' Books'', map book_id (filter (\<lambda>b. book_age b = a) books)))
          (populated_ages books)"
    by (rule map_proj_enumerate) (simp add: age_collection_def ids_with_def)
  have genres: "map (\<lambda>c. (coll_name c, coll_bookIds c))
          (map (\<lambda>(k, g). genre_collection k g (ids_with book_genre g books))
            (enumerate (1 + length (populated_ages books)) (genres_with_two books))) =
        map (\<lambda>g. (g, map book_id (filter (\<lambda>b. book_genre b = g) books)))
          (genres_with_two books)"
    by (rule map_proj_enumerate) (simp add: genre_collection_def ids_with_def)
  show ?thesis
    unfolding create_collections_eq list.map map_append ages genres
    by (simp add: all_books_collection_def)
qed

theorem collection_book_ids_witness:
  "map (\<lambda>c. (coll_name c, coll_bookIds c))
     (create_collections
        [book_of ''emma'' ''Classic Literature'' ''Adult'',
         book_of ''dracula'' ''Horror'' ''Young Adult'',
         book_of ''persuasion'' ''Classic Literature'' ''Adult'']) =
   [(''All Books'', [''emma'', ''dracula'', ''persuasion'']),
    (''Young Adult Books'', [''dracula'']),
    (''Adult Books'', [''emma'', ''persuasion'']),
    (''Classic Literature'', [''emma'', ''persuasion''])]"
proof -
  let ?bs = "[book_of ''emma'' ''Classic Literature'' ''Adult'',
              book_of ''dracula'' ''Horror'' ''Young Adult'',
              book_of ''persuasion'' ''Classic Literature'' ''Adult'']"
  have rhs: "(''All Books'', map book_id ?bs) #
     map (\<lambda>a. (a @ '' Books'', map book_id (filter (\<lambda>b. book_age b = a) ?bs)))
       (populated_ages ?bs) @
     map (\<lambda>g. (g, map book_id (filter (\<lambda>b. book_genre b = g) ?bs)))
       (genres_with_two ?bs) =
   [(''All Books'', [''emma'', ''dracula'', ''persuasion'']),
    (''Young Adult Books'', [''dracula'']),
    (''Adult Books'', [''emma'', ''persuasion'']),
    (''Classic Literature'', [''emma'', ''persuasion''])]"
    by code_simp
  show ?thesis
    by (rule trans [OF collection_book_ids rhs])
qed

lemma not_genre_description_all:
  "''Complete library collection'' \<noteq> G @ '' books from our collection''"
proof
  assume eq: "''Complete library collection'' = G @ '' books from our collection''"
  then have "length ''Complete library collection'' = length (G @ '' books from our collection'')"
    by (rule arg_cong)
  then have "length G = 1" by simp
  then obtain x where "G = [x]" by (cases G) auto
  with eq show False by simp
qed

lemma not_genre_description_age:
  "''Books suitable for '' @ x @ '' readers'' \<noteq> G @ '' books from our collection''"
proof
  assume "''Books suitable for '' @ x @ '' readers'' = G @ '' books from our collection''"
  then have "last (''Books suitable for '' @ x @ '' readers'') =
             last (G @ '' books from our collection'')"
    by (rule arg_cong)
  then show False by simp
qed

lemma all_books_description:
  "coll_description (all_books_collection books) = ''Complete library collection''"
  by (simp add: all_books_collection_def)

lemma age_description:
  "coll_description (age_collection k a ids) = ''Books suitable for '' @ lower a @ '' readers''"
  by (simp add: age_collection_def)

lemma genre_name_description:
  "coll_name (genre_collection k g ids) = g"
  "coll_description (genre_collection k g ids) = g @ '' books from our collection''"
  by (simp_all add: genre_collection_def)

lemma genres_with_two_iff:
  "G \<in> set (genres_with_two books) \<longleftrightarrow> 2 \<le> length (filter (\<lambda>b. book_genre b = G) books)"
proof -
  have "G \<in> set (map book_genre books)" if "2 \<le> length (filter (\<lambda>b. book_genre b = G) books)"
  proof -
    from that have "filter (\<lambda>b. book_genre b = G) books \<noteq> []" by auto
    then show ?thesis by (auto simp: filter_empty_conv)
  qed
  then show ?thesis
    by (auto simp: genres_with_two_def ids_with_def)
qed

text \<open>
  C8. The collection of a genre \<open>G\<close>, which has the name \<open>G\<close> and the description of a
  genre collection, is in the generated list if and only if two books or more of the book
  list have the genre \<open>G\<close>.
\<close>

theorem genre_collection_iff:
  "(\<exists>c \<in> set (create_collections books).
      coll_name c = G \<and> coll_description c = G @ '' books from our collection'') =
   (2 \<le> length (filter (\<lambda>b. book_genre b = G) books))"
proof
  assume "\<exists>c \<in> set (create_collections books).
      coll_name c = G \<and> coll_description c = G @ '' books from our collection''"
  then obtain c where c: "c \<in> set (create_collections books)" "coll_name c = G"
    "coll_description c = G @ '' books from our collection''" by blast
  from c(1) consider
      (all) "c = all_books_collection books"
    | (age) k a where "c = age_collection k a (ids_with book_age a books)"
    | (genre) k g where "g \<in> set (genres_with_two books)"
        "c = genre_collection k g (ids_with book_genre g books)"
    unfolding create_collections_eq by (auto dest: enumerate_snd_member)
  then have "G \<in> set (genres_with_two books)"
  proof cases
    case all
    with c(3) not_genre_description_all [of G] show ?thesis
      by (simp only: all_books_description)
  next
    case age
    with c(3) not_genre_description_age [of "lower a" G] show ?thesis
      by (simp only: age_description)
  next
    case genre
    with c(2) show ?thesis by (simp only: genre_name_description)
  qed
  then show "2 \<le> length (filter (\<lambda>b. book_genre b = G) books)"
    by (simp only: genres_with_two_iff)
next
  assume "2 \<le> length (filter (\<lambda>b. book_genre b = G) books)"
  then have "G \<in> set (genres_with_two books)" by (simp only: genres_with_two_iff)
  then obtain k where
    "(k, G) \<in> set (enumerate (1 + length (populated_ages books)) (genres_with_two books))"
    using enumerate_member [of G "genres_with_two books" "1 + length (populated_ages books)"]
    by blast
  then have "genre_collection k G (ids_with book_genre G books) \<in> set (create_collections books)"
    unfolding create_collections_eq by force
  then show "\<exists>c \<in> set (create_collections books).
      coll_name c = G \<and> coll_description c = G @ '' books from our collection''"
    using genre_name_description by blast
qed

theorem genre_collection_iff_witness:
  "(\<exists>c \<in> set (create_collections
        [book_of ''emma'' ''Classic Literature'' ''Adult'',
         book_of ''dracula'' ''Horror'' ''Young Adult'',
         book_of ''persuasion'' ''Classic Literature'' ''Adult'']).
      coll_name c = ''Classic Literature'' \<and>
      coll_description c = ''Classic Literature'' @ '' books from our collection'') \<and>
   \<not> (\<exists>c \<in> set (create_collections
        [book_of ''emma'' ''Classic Literature'' ''Adult'',
         book_of ''dracula'' ''Horror'' ''Young Adult'',
         book_of ''persuasion'' ''Classic Literature'' ''Adult'']).
      coll_name c = ''Horror'' \<and>
      coll_description c = ''Horror'' @ '' books from our collection'')"
proof -
  let ?bs = "[book_of ''emma'' ''Classic Literature'' ''Adult'',
              book_of ''dracula'' ''Horror'' ''Young Adult'',
              book_of ''persuasion'' ''Classic Literature'' ''Adult'']"
  have two: "2 \<le> length (filter (\<lambda>b. book_genre b = ''Classic Literature'') ?bs)"
    by (simp add: book_of_def)
  have one: "\<not> 2 \<le> length (filter (\<lambda>b. book_genre b = ''Horror'') ?bs)"
    by (simp add: book_of_def)
  from genre_collection_iff [of ?bs "''Classic Literature''"] two
    genre_collection_iff [of ?bs "''Horror''"] one
  show ?thesis by blast
qed

section \<open>The output directory of the cover extractor\<close>

lemma process_epub_alt:
  "process_epub rt cp e fs =
     (if fs (output_file e) \<noteq> None then fs
      else case new_cover rt cp e of None \<Rightarrow> fs | Some v \<Rightarrow> fs(output_file e \<mapsto> v))"
  by (simp add: process_epub_def new_cover_def output_file_def Let_def
      split: option.splits)

lemma process_epub_keeps:
  "fs p = Some d \<Longrightarrow> process_epub rt cp e fs p = Some d"
  by (auto simp: process_epub_alt split: option.splits)

lemma fold_process_keeps:
  "fs p = Some d \<Longrightarrow> fold (process_epub rt cp) es fs p = Some d"
  by (induction es arbitrary: fs) (simp_all add: process_epub_keeps)

lemma extract_all_covers_fold:
  "extract_all_covers rt dir fs cp =
     fold (process_epub rt cp) (sort_key entry_name (glob_epub dir)) fs"
  by (simp add: extract_all_covers_def Let_def)

lemma process_epub_writes:
  "new_cover rt cp e \<noteq> None \<Longrightarrow> process_epub rt cp e fs (output_file e) \<noteq> None"
  by (auto simp: process_epub_alt split: option.splits)

lemma fold_process_writes:
  "e \<in> set es \<Longrightarrow> new_cover rt cp e \<noteq> None \<Longrightarrow>
   fold (process_epub rt cp) es fs (output_file e) \<noteq> None"
proof (induction es arbitrary: fs)
  case Nil
  then show ?case by simp
next
  case (Cons x xs)
  show ?case
  proof (cases "e = x")
    case True
    with Cons.prems have "process_epub rt cp x fs (output_file e) \<noteq> None"
      by (simp add: process_epub_writes)
    then obtain d where "process_epub rt cp x fs (output_file e) = Some d" by blast
    then have "fold (process_epub rt cp) xs (process_epub rt cp x fs) (output_file e) = Some d"
      by (rule fold_process_keeps)
    then show ?thesis by simp
  next
    case False
    with Cons.prems have "e \<in> set xs" by simp
    with Cons.IH Cons.prems(2) show ?thesis by simp
  qed
qed

lemma fold_process_fixed:
  "(\<And>e. e \<in> set es \<Longrightarrow> new_cover rt cp e \<noteq> None \<Longrightarrow> fs (output_file e) \<noteq> None) \<Longrightarrow>
   fold (process_epub rt cp) es fs = fs"
proof (induction es)
  case Nil
  then show ?case by simp
next
  case (Cons x xs)
  have "process_epub rt cp x fs = fs"
    using Cons.prems [of x] by (auto simp: process_epub_alt split: option.splits)
  with Cons show ?case by simp
qed

lemma unreadable_new_cover:
  "read_epub e = None \<Longrightarrow> new_cover rt cp e = None"
  by (simp add: new_cover_def extract_cover_from_epub_def truthy_def)

lemma fold_process_source:
  "fold (process_epub rt cp) es fs p \<noteq> None \<Longrightarrow>
   fs p \<noteq> None \<or> (\<exists>e \<in> set es. output_file e = p \<and> new_cover rt cp e \<noteq> None)"
proof (induction es arbitrary: fs)
  case Nil
  then show ?case by simp
next
  case (Cons x xs)
  from Cons.prems have "fold (process_epub rt cp) xs (process_epub rt cp x fs) p \<noteq> None"
    by simp
  then have "process_epub rt cp x fs p \<noteq> None \<or>
      (\<exists>e \<in> set xs. output_file e = p \<and> new_cover rt cp e \<noteq> None)"
    by (rule Cons.IH)
  then show ?case
    by (auto simp: process_epub_alt split: option.splits if_splits)
qed

lemma readable_new_cover:
  "read_epub e \<noteq> None \<Longrightarrow> new_cover rt True e \<noteq> None"
  by (auto simp: new_cover_def split: option.splits)

text \<open>
  C9. A file of the output directory keeps its content through a run of the extractor,
  so the cover of a book whose output file exists is neither overwritten nor modified. A
  second run, over any inputs, keeps every file that the first run left, and a second run
  over the same inputs leaves the output directory as the first run left it.
\<close>

theorem skip_existing_covers:
  "(output_dir p = Some d \<longrightarrow>
      extract_all_covers rt epubs_dir output_dir create_placeholders p = Some d) \<and>
   (extract_all_covers rt epubs_dir output_dir create_placeholders p = Some d \<longrightarrow>
      extract_all_covers rt' epubs_dir'
        (extract_all_covers rt epubs_dir output_dir create_placeholders)
        create_placeholders' p = Some d) \<and>
   extract_all_covers rt epubs_dir
     (extract_all_covers rt epubs_dir output_dir create_placeholders) create_placeholders =
   extract_all_covers rt epubs_dir output_dir create_placeholders"
proof (intro conjI impI)
  assume "output_dir p = Some d"
  then show "extract_all_covers rt epubs_dir output_dir create_placeholders p = Some d"
    unfolding extract_all_covers_fold by (rule fold_process_keeps)
next
  assume "extract_all_covers rt epubs_dir output_dir create_placeholders p = Some d"
  then show "extract_all_covers rt' epubs_dir'
        (extract_all_covers rt epubs_dir output_dir create_placeholders)
        create_placeholders' p = Some d"
    unfolding extract_all_covers_fold [of rt'] by (rule fold_process_keeps)
next
  show "extract_all_covers rt epubs_dir
     (extract_all_covers rt epubs_dir output_dir create_placeholders) create_placeholders =
   extract_all_covers rt epubs_dir output_dir create_placeholders"
    unfolding extract_all_covers_fold
    by (rule fold_process_fixed) (rule fold_process_writes)
qed

theorem skip_existing_covers_witness:
  "extract_all_covers sample_runtime
     [\<lparr>entry_name = ''emma.epub'', read_epub = Some empty_epub, entry_size = 10\<rparr>]
     [''emma.png'' \<mapsto> Bytes ''old''] True ''emma.png'' = Some (Bytes ''old'') \<and>
   extract_all_covers sample_runtime
     [\<lparr>entry_name = ''emma.epub'', read_epub = Some empty_epub, entry_size = 10\<rparr>]
     (extract_all_covers sample_runtime
        [\<lparr>entry_name = ''emma.epub'', read_epub = Some empty_epub, entry_size = 10\<rparr>]
        [''emma.png'' \<mapsto> Bytes ''old''] True)
     True ''emma.png'' = Some (Bytes ''old'')"
proof -
  let ?dir = "[\<lparr>entry_name = ''emma.epub'', read_epub = Some empty_epub, entry_size = 10\<rparr>]"
  let ?out = "[''emma.png'' \<mapsto> Bytes ''old'']"
  have old: "?out ''emma.png'' = Some (Bytes ''old'')" by simp
  note keeps = skip_existing_covers [where output_dir = ?out and p = "''emma.png''"
      and d = "Bytes ''old''" and rt = sample_runtime and epubs_dir = ?dir
      and create_placeholders = True and rt' = sample_runtime and epubs_dir' = ?dir
      and create_placeholders' = True]
  from keeps old show ?thesis by blast
qed

text \<open>
  C2, as amended. With placeholders enabled, a run leaves an output file for every EPUB
  of the input directory that can be read, and every file it creates is the output file
  of an EPUB that can be read; the loop body writes nothing for an EPUB that cannot be
  read. For an EPUB that can be read, in which the cover search finds nothing and whose
  output file does not exist, the loop body writes that one file, a PNG of 300 by 450:
  the placeholder drawn from the colour pair, the title and the author where drawing goes
  through, and the rectangle of the colour (100, 100, 150) where it fails.
\<close>

theorem one_cover_per_readable_book:
  "(\<forall>e \<in> set (glob_epub epubs_dir). read_epub e \<noteq> None \<longrightarrow>
      extract_all_covers rt epubs_dir output_dir True (output_file e) \<noteq> None) \<and>
   (\<forall>p. extract_all_covers rt epubs_dir output_dir True p \<noteq> None \<longrightarrow>
      output_dir p \<noteq> None \<or>
      (\<exists>e \<in> set (glob_epub epubs_dir). output_file e = p \<and> read_epub e \<noteq> None)) \<and>
   (\<forall>e. read_epub e = None \<longrightarrow> process_epub rt True e output_dir = output_dir) \<and>
   (\<forall>e book. output_dir (output_file e) = None \<and> read_epub e = Some book \<and>
        truthy (extract_cover_from_epub e) = None \<longrightarrow>
      process_epub rt True e output_dir =
        output_dir(output_file e \<mapsto> PNG 300 450
          (case placeholder_title e book of
             None \<Rightarrow> Rectangle (100, 100, 150)
           | Some t \<Rightarrow>
               if pil_draw rt (color_pair (py_hash rt) (lower (stem (entry_name e)))) t
                    (placeholder_author book) 300 450
               then Placeholder (color_pair (py_hash rt) (lower (stem (entry_name e)))) t
                      (placeholder_author book)
               else Rectangle (100, 100, 150))))"
proof (intro conjI ballI allI impI)
  fix e
  assume "e \<in> set (glob_epub epubs_dir)" "read_epub e \<noteq> None"
  then show "extract_all_covers rt epubs_dir output_dir True (output_file e) \<noteq> None"
    unfolding extract_all_covers_fold
    by (intro fold_process_writes readable_new_cover) simp_all
next
  fix p
  assume "extract_all_covers rt epubs_dir output_dir True p \<noteq> None"
  then have "output_dir p \<noteq> None \<or>
      (\<exists>e \<in> set (sort_key entry_name (glob_epub epubs_dir)).
         output_file e = p \<and> new_cover rt True e \<noteq> None)"
    unfolding extract_all_covers_fold by (rule fold_process_source)
  then show "output_dir p \<noteq> None \<or>
      (\<exists>e \<in> set (glob_epub epubs_dir). output_file e = p \<and> read_epub e \<noteq> None)"
    using unreadable_new_cover by auto
next
  fix e :: dir_entry
  assume "read_epub e = None"
  then show "process_epub rt True e output_dir = output_dir"
    by (simp add: process_epub_alt unreadable_new_cover)
next
  fix e :: dir_entry and book
  assume "output_dir (output_file e) = None \<and> read_epub e = Some book \<and>
        truthy (extract_cover_from_epub e) = None"
  then show "process_epub rt True e output_dir =
        output_dir(output_file e \<mapsto> PNG 300 450
          (case placeholder_title e book of
             None \<Rightarrow> Rectangle (100, 100, 150)
           | Some t \<Rightarrow>
               if pil_draw rt (color_pair (py_hash rt) (lower (stem (entry_name e)))) t
                    (placeholder_author book) 300 450
               then Placeholder (color_pair (py_hash rt) (lower (stem (entry_name e)))) t
                      (placeholder_author book)
               else Rectangle (100, 100, 150)))"
    by (simp add: process_epub_alt new_cover_def create_placeholder_cover_def
          placeholder_title_def placeholder_author_def split: option.splits)
qed

theorem one_cover_per_readable_book_witness:
  "extract_all_covers sample_runtime
     [\<lparr>entry_name = ''emma.epub'', read_epub = Some empty_epub, entry_size = 10\<rparr>]
     Map.empty True ''emma.png'' \<noteq> None \<and>
   process_epub sample_runtime True
     \<lparr>entry_name = ''emma.epub'', read_epub = Some empty_epub, entry_size = 10\<rparr> Map.empty =
     [''emma.png'' \<mapsto>
        PNG 300 450 (Placeholder ((139, 92, 246), (124, 58, 237)) ''Emma'' (Some ''Unknown''))] \<and>
   process_epub (sample_runtime\<lparr>pil_draw := (\<lambda>_ _ _ _ _. False)\<rparr>) True
     \<lparr>entry_name = ''emma.epub'', read_epub = Some empty_epub, entry_size = 10\<rparr> Map.empty =
     [''emma.png'' \<mapsto> PNG 300 450 (Rectangle (100, 100, 150))] \<and>
   process_epub sample_runtime True
     \<lparr>entry_name = ''broken.epub'', read_epub = None, entry_size = 10\<rparr> Map.empty =
     Map.empty"
proof -
  let ?e = "\<lparr>entry_name = ''emma.epub'', read_epub = Some empty_epub, entry_size = 10\<rparr>"
  let ?broken = "\<lparr>entry_name = ''broken.epub'', read_epub = None, entry_size = 10\<rparr>"
  let ?failing = "sample_runtime\<lparr>pil_draw := (\<lambda>_ _ _ _ _. False)\<rparr>"
  have found: "?e \<in> set (glob_epub [?e])"
    by (simp add: glob_epub_def endswith_def)
  have readable: "read_epub ?e = Some empty_epub" by simp
  have no_cover: "truthy (extract_cover_from_epub ?e) = None"
    by (simp add: extract_cover_from_epub_def truthy_def empty_epub_def)
  have name: "output_file ?e = ''emma.png''" by code_simp
  have bid: "lower (stem (entry_name ?e)) = ''emma''" by code_simp
  have title: "placeholder_title ?e empty_epub = Some ''Emma''" by code_simp
  have author: "placeholder_author empty_epub = Some ''Unknown''" by code_simp
  have pair: "color_pair (py_hash sample_runtime) ''emma'' = ((139, 92, 246), (124, 58, 237))"
    by (simp add: sample_runtime_def color_pair_def colors_def)
  have draws: "pil_draw sample_runtime c t a w h" for c t a w h
    by (simp add: sample_runtime_def)
  have fails: "\<not> pil_draw ?failing c t a w h" for c t a w h
    by simp
  have absent: "Map.empty (output_file ?e) = None" by simp
  note good = one_cover_per_readable_book [where epubs_dir = "[?e]" and rt = sample_runtime
      and output_dir = Map.empty]
  note bad = one_cover_per_readable_book [where epubs_dir = "[?e]" and rt = ?failing
      and output_dir = Map.empty]
  from good found readable have "extract_all_covers sample_runtime [?e] Map.empty True
      (output_file ?e) \<noteq> None"
    by blast
  then have first: "extract_all_covers sample_runtime [?e] Map.empty True ''emma.png'' \<noteq> None"
    unfolding name .
  from good absent readable no_cover
  have "process_epub sample_runtime True ?e Map.empty =
      Map.empty(output_file ?e \<mapsto> PNG 300 450
        (case placeholder_title ?e empty_epub of
           None \<Rightarrow> Rectangle (100, 100, 150)
         | Some t \<Rightarrow>
             if pil_draw sample_runtime
                  (color_pair (py_hash sample_runtime) (lower (stem (entry_name ?e)))) t
                  (placeholder_author empty_epub) 300 450
             then Placeholder (color_pair (py_hash sample_runtime)
                    (lower (stem (entry_name ?e)))) t (placeholder_author empty_epub)
             else Rectangle (100, 100, 150)))"
    by blast
  then have second: "process_epub sample_runtime True ?e Map.empty =
      [''emma.png'' \<mapsto>
        PNG 300 450 (Placeholder ((139, 92, 246), (124, 58, 237)) ''Emma'' (Some ''Unknown''))]"
    unfolding name bid title author pair option.case by (simp add: draws)
  from bad absent readable no_cover
  have "process_epub ?failing True ?e Map.empty =
      Map.empty(output_file ?e \<mapsto> PNG 300 450
        (case placeholder_title ?e empty_epub of
           None \<Rightarrow> Rectangle (100, 100, 150)
         | Some t \<Rightarrow>
             if pil_draw ?failing
                  (color_pair (py_hash ?failing) (lower (stem (entry_name ?e)))) t
                  (placeholder_author empty_epub) 300 450
             then Placeholder (color_pair (py_hash ?failing)
                    (lower (stem (entry_name ?e)))) t (placeholder_author empty_epub)
             else Rectangle (100, 100, 150)))"
    by blast
  then have third: "process_epub ?failing True ?e Map.empty =
      [''emma.png'' \<mapsto> PNG 300 450 (Rectangle (100, 100, 150))]"
    unfolding name title option.case by (simp add: fails)
  from good have "read_epub ?broken = None \<longrightarrow>
      process_epub sample_runtime True ?broken Map.empty = Map.empty"
    by blast
  then have fourth: "process_epub sample_runtime True ?broken Map.empty = Map.empty"
    by simp
  from first second third fourth show ?thesis by blast
qed

text \<open>
  The claim as written fails for an EPUB that cannot be read: the cover search gives
  nothing, reading the title for the placeholder raises, and the handler writes no file.
\<close>

theorem one_cover_per_book_counterexample:
  "glob_epub [\<lparr>entry_name = ''broken.epub'', read_epub = None, entry_size = 0\<rparr>] =
     [\<lparr>entry_name = ''broken.epub'', read_epub = None, entry_size = 0\<rparr>] \<and>
   extract_all_covers
     \<lparr>py_hash = (\<lambda>_. 0), pil_thumbnail = (\<lambda>_ _ _. None), pil_draw = (\<lambda>_ _ _ _ _. True)\<rparr>
     [\<lparr>entry_name = ''broken.epub'', read_epub = None, entry_size = 0\<rparr>]
     Map.empty True = Map.empty"
  by (simp add: glob_epub_def endswith_def extract_all_covers_def process_epub_def
        extract_cover_from_epub_def truthy_def)

end
